theory Spec2Isabelle
  imports Complex_Main "HOL-Library.Log_Nat"
begin

section \<open>Python floats\<close>

text \<open>
  The calculator engines of \<^verbatim>\<open>Quiz04/calculator.py\<close> and
  \<^verbatim>\<open>Quiz06/engineering_calculator.py\<close> keep the accumulator as a Python
  \<^verbatim>\<open>float\<close> and the number being typed as a \<^verbatim>\<open>str\<close>.  A Python float is an
  IEEE 754 binary64 number.  \<open>Finite s m e\<close> is the number \<open>(-1)\<^sup>s * m * 2\<^sup>e\<close> with
  \<open>0 \<le> m < 2\<^sup>5\<^sup>3\<close> and \<open>-1074 \<le> e \<le> 971\<close>, where \<open>2\<^sup>5\<^sup>2 \<le> m\<close> unless
  \<open>e = -1074\<close> (zero and the subnormal numbers).  Arithmetic, \<^verbatim>\<open>float(str)\<close> and
  \<^verbatim>\<open>format\<close> are correctly rounded (to nearest, ties to even), so each is the
  exact rational result followed by one rounding.
\<close>

datatype pyfloat = Finite bool int int | Infinite bool | NaN

datatype pyexn = ValueError | ZeroDivisionError | OverflowError

text \<open>The integer nearest to \<open>n / d\<close>, ties to the even one (\<open>0 \<le> n\<close>, \<open>0 < d\<close>).\<close>

definition round_half_even :: "int \<Rightarrow> int \<Rightarrow> int" where
  "round_half_even n d =
     (let q = n div d; r = n mod d
      in if 2 * r < d then q
         else if d < 2 * r then q + 1
         else if even q then q else q + 1)"

text \<open>The float nearest to \<open>(-1)\<^sup>s * n / d\<close> (\<open>0 \<le> n\<close>, \<open>0 < d\<close>); overflow gives infinity.\<close>

definition round_ratio :: "bool \<Rightarrow> int \<Rightarrow> int \<Rightarrow> pyfloat" where
  "round_ratio s n d =
     (if n = 0 then Finite s 0 (- 1074)
      else
        let k = bitlen n - bitlen d;
            e0 = (if (if 0 \<le> k then d * 2 ^ nat k \<le> n else d \<le> n * 2 ^ nat (- k)) then k else k - 1);
            e = max (e0 - 52) (- 1074);
            m = (if 0 \<le> e then round_half_even n (d * 2 ^ nat e)
                 else round_half_even (n * 2 ^ nat (- e)) d);
            m' = (if m = 2 ^ 53 then 2 ^ 52 else m);
            e' = (if m = 2 ^ 53 then e + 1 else e)
        in if 971 < e' then Infinite s else Finite s m' e')"

definition of_scaled :: "bool \<Rightarrow> int \<Rightarrow> int \<Rightarrow> pyfloat" where
  "of_scaled s m e =
     (if 0 \<le> e then round_ratio s (m * 2 ^ nat e) 1 else round_ratio s m (2 ^ nat (- e)))"

definition of_decimal :: "bool \<Rightarrow> int \<Rightarrow> int \<Rightarrow> pyfloat" where
  "of_decimal s m x =
     (if 0 \<le> x then round_ratio s (m * 10 ^ nat x) 1 else round_ratio s m (10 ^ nat (- x)))"

text \<open>The literals \<^verbatim>\<open>0.0\<close> and \<^verbatim>\<open>100.0\<close> of the source, and \<^verbatim>\<open>math.pi\<close>.\<close>

definition zero :: pyfloat where
  "zero = Finite False 0 (- 1074)"

definition hundred :: pyfloat where
  "hundred = of_decimal False 100 0"

definition pi_float :: pyfloat where
  "pi_float = of_decimal False 3141592653589793 (- 15)"

fun isfinite :: "pyfloat \<Rightarrow> bool" where
  "isfinite (Finite s m e) = True"
| "isfinite (Infinite s) = False"
| "isfinite NaN = False"

text \<open>Python's \<^verbatim>\<open>==\<close> on floats: the two zeros are equal, NaN equals nothing.\<close>

fun float_eq :: "pyfloat \<Rightarrow> pyfloat \<Rightarrow> bool" where
  "float_eq NaN y = False"
| "float_eq x NaN = False"
| "float_eq (Finite s m e) (Finite t n f) = (m = 0 \<and> n = 0 \<or> s = t \<and> m = n \<and> e = f)"
| "float_eq (Infinite s) (Infinite t) = (s = t)"
| "float_eq (Finite s m e) (Infinite t) = False"
| "float_eq (Infinite s) (Finite t n f) = False"

fun fneg :: "pyfloat \<Rightarrow> pyfloat" where
  "fneg (Finite s m e) = Finite (\<not> s) m e"
| "fneg (Infinite s) = Infinite (\<not> s)"
| "fneg NaN = NaN"

definition signed :: "bool \<Rightarrow> int \<Rightarrow> int" where
  "signed s m = (if s then - m else m)"

definition of_sum :: "bool \<Rightarrow> int \<Rightarrow> int \<Rightarrow> pyfloat" where
  "of_sum zs z g = (if z = 0 then Finite zs 0 (- 1074) else of_scaled (z < 0) \<bar>z\<bar> g)"

fun fadd :: "pyfloat \<Rightarrow> pyfloat \<Rightarrow> pyfloat" where
  "fadd NaN y = NaN"
| "fadd x NaN = NaN"
| "fadd (Infinite s) (Infinite t) = (if s = t then Infinite s else NaN)"
| "fadd (Infinite s) (Finite t n f) = Infinite s"
| "fadd (Finite s m e) (Infinite t) = Infinite t"
| "fadd (Finite s m e) (Finite t n f) =
     of_sum (s \<and> t)
       (signed s (m * 2 ^ nat (e - min e f)) + signed t (n * 2 ^ nat (f - min e f))) (min e f)"

definition fsub :: "pyfloat \<Rightarrow> pyfloat \<Rightarrow> pyfloat" where
  "fsub x y = fadd x (fneg y)"

fun fmul :: "pyfloat \<Rightarrow> pyfloat \<Rightarrow> pyfloat" where
  "fmul NaN y = NaN"
| "fmul x NaN = NaN"
| "fmul (Infinite s) (Infinite t) = Infinite (s \<noteq> t)"
| "fmul (Infinite s) (Finite t n f) = (if n = 0 then NaN else Infinite (s \<noteq> t))"
| "fmul (Finite s m e) (Infinite t) = (if m = 0 then NaN else Infinite (s \<noteq> t))"
| "fmul (Finite s m e) (Finite t n f) = of_scaled (s \<noteq> t) (m * n) (e + f)"

text \<open>IEEE division; Python never reaches the zero divisor (see \<open>py_truediv\<close>).\<close>

fun fdiv :: "pyfloat \<Rightarrow> pyfloat \<Rightarrow> pyfloat" where
  "fdiv NaN y = NaN"
| "fdiv x NaN = NaN"
| "fdiv (Infinite s) (Infinite t) = NaN"
| "fdiv (Infinite s) (Finite t n f) = Infinite (s \<noteq> t)"
| "fdiv (Finite s m e) (Infinite t) = Finite (s \<noteq> t) 0 (- 1074)"
| "fdiv (Finite s m e) (Finite t n f) =
     (if n = 0 then (if m = 0 then NaN else Infinite (s \<noteq> t))
      else round_ratio (s \<noteq> t) (m * 2 ^ nat (e - f)) (n * 2 ^ nat (f - e)))"

text \<open>Python's \<^verbatim>\<open>a / b\<close> on floats raises \<^verbatim>\<open>ZeroDivisionError\<close> when \<^verbatim>\<open>b == 0\<close>.\<close>

definition py_truediv :: "pyfloat \<Rightarrow> pyfloat \<Rightarrow> pyexn + pyfloat" where
  "py_truediv a b = (if float_eq b zero then Inl ZeroDivisionError else Inr (fdiv a b))"

subsection \<open>\<^verbatim>\<open>float(str)\<close>\<close>

text \<open>
  Texts are ASCII.  \<^verbatim>\<open>float\<close> strips white space, reads an optional sign and then
  \<^verbatim>\<open>inf\<close>, \<^verbatim>\<open>infinity\<close> or \<^verbatim>\<open>nan\<close> in any case, or a decimal number: digits
  (single underscores allowed between digits), an optional point, an optional exponent.
  \<open>None\<close> stands for \<^verbatim>\<open>ValueError\<close>.
\<close>

definition is_digit :: "char \<Rightarrow> bool" where
  "is_digit c = (c \<in> set ''0123456789'')"

text \<open>The value of a digit is its place in \<^verbatim>\<open>0123456789\<close>.\<close>

definition digit_val :: "char \<Rightarrow> int" where
  "digit_val c = int (length (takeWhile (\<lambda>d. d \<noteq> c) ''0123456789''))"

definition digit_char :: "int \<Rightarrow> char" where
  "digit_char n = ''0123456789'' ! nat n"

definition int_of_digits :: "string \<Rightarrow> int" where
  "int_of_digits ds = foldl (\<lambda>a c. 10 * a + digit_val c) 0 ds"

text \<open>The white space that \<^verbatim>\<open>float\<close> strips: tab, line feed, vertical tab, form feed,
  carriage return and space.\<close>

definition is_space :: "char \<Rightarrow> bool" where
  "is_space c = (c \<in> set [CHR 0x09, CHR 0x0A, CHR 0x0B, CHR 0x0C, CHR 0x0D, CHR 0x20])"

definition strip :: "string \<Rightarrow> string" where
  "strip t = rev (dropWhile is_space (rev (dropWhile is_space t)))"

definition lower :: "char \<Rightarrow> char" where
  "lower c =
     (case map_of (zip ''ABCDEFGHIJKLMNOPQRSTUVWXYZ'' ''abcdefghijklmnopqrstuvwxyz'') c of
        None \<Rightarrow> c | Some l \<Rightarrow> l)"

fun digitpart_rest :: "string \<Rightarrow> string \<times> string" where
  "digitpart_rest [] = ([], [])"
| "digitpart_rest [c] = (if is_digit c then ([c], []) else ([], [c]))"
| "digitpart_rest (c # d # cs) =
     (if is_digit c then (case digitpart_rest (d # cs) of (ds, r) \<Rightarrow> (c # ds, r))
      else if c = CHR ''_'' \<and> is_digit d then (case digitpart_rest cs of (ds, r) \<Rightarrow> (d # ds, r))
      else ([], c # d # cs))"

definition digitpart :: "string \<Rightarrow> (string \<times> string) option" where
  "digitpart t =
     (case t of
        [] \<Rightarrow> None
      | c # cs \<Rightarrow>
          if is_digit c then (case digitpart_rest cs of (ds, r) \<Rightarrow> Some (c # ds, r)) else None)"

definition exponent :: "string \<Rightarrow> int option" where
  "exponent t =
     (case t of
        [] \<Rightarrow> Some 0
      | c # cs \<Rightarrow>
          if c = CHR ''e'' \<or> c = CHR ''E'' then
            (let neg = (case cs of [] \<Rightarrow> False | x # _ \<Rightarrow> x = CHR ''-'');
                 ds = (case cs of
                         [] \<Rightarrow> []
                       | x # xs \<Rightarrow> if x = CHR ''+'' \<or> x = CHR ''-'' then xs else cs)
             in case digitpart ds of
                  Some (es, []) \<Rightarrow> Some (if neg then - int_of_digits es else int_of_digits es)
                | _ \<Rightarrow> None)
          else None)"

definition floatnumber :: "bool \<Rightarrow> string \<Rightarrow> pyfloat option" where
  "floatnumber s t =
     (let (ip, r1) = (case digitpart t of None \<Rightarrow> ([], t) | Some p \<Rightarrow> p);
          (fp, r2) = (case r1 of
                        [] \<Rightarrow> (Some [], r1)
                      | c # cs \<Rightarrow>
                          if c = CHR ''.'' then
                            (case digitpart cs of
                               None \<Rightarrow> (if ip = [] then None else Some [], cs)
                             | Some (ds, r) \<Rightarrow> (Some ds, r))
                          else (Some [], r1))
      in case fp of
           None \<Rightarrow> None
         | Some fs \<Rightarrow>
             if ip = [] \<and> fs = [] then None
             else (case exponent r2 of
                     None \<Rightarrow> None
                   | Some x \<Rightarrow>
                       Some (of_decimal s (int_of_digits (ip @ fs)) (x - int (length fs)))))"

definition float_of_str :: "string \<Rightarrow> pyfloat option" where
  "float_of_str t =
     (let u = strip t;
          neg = (case u of [] \<Rightarrow> False | c # _ \<Rightarrow> c = CHR ''-'');
          v = (case u of [] \<Rightarrow> [] | c # cs \<Rightarrow> if c = CHR ''+'' \<or> c = CHR ''-'' then cs else u);
          w = map lower v
      in if w = ''inf'' \<or> w = ''infinity'' then Some (Infinite neg)
         else if w = ''nan'' then Some NaN
         else floatnumber neg v)"

subsection \<open>\<^verbatim>\<open>f"{val:.12g}"\<close>\<close>

text \<open>
  Twelve significant digits, correctly rounded; scientific notation when the decimal
  exponent is below \<open>-4\<close> or at least \<open>12\<close>; trailing zeros and a trailing point are
  dropped.
\<close>

definition strip_zeros :: "string \<Rightarrow> string" where
  "strip_zeros ds = rev (dropWhile (\<lambda>c. c = CHR ''0'') (rev ds))"

fun digits_of :: "nat \<Rightarrow> int \<Rightarrow> string" where
  "digits_of 0 n = []"
| "digits_of (Suc w) n = digits_of w (n div 10) @ [digit_char (n mod 10)]"

function ndigits :: "int \<Rightarrow> int" where
  "ndigits n = (if n < 10 then 1 else ndigits (n div 10) + 1)"
  by pat_completeness auto
termination
  by (relation "measure nat") auto

declare ndigits.simps [simp del]

text \<open>The \<open>x\<close> with \<open>10\<^sup>x \<le> n / d < 10\<^sup>x\<^sup>+\<^sup>1\<close> (\<open>0 < n\<close>, \<open>0 < d\<close>).\<close>

definition decimal_exponent :: "int \<Rightarrow> int \<Rightarrow> int" where
  "decimal_exponent n d =
     (if d \<le> n then ndigits (n div d) - 1
      else let l = ndigits (d div n)
           in if d = n * 10 ^ nat (l - 1) then - (l - 1) else - l)"

text \<open>\<open>n / d\<close> in units of \<open>10\<^sup>x\<^sup>-\<^sup>1\<^sup>1\<close>, rounded.\<close>

definition scaled_digits :: "int \<Rightarrow> int \<Rightarrow> int \<Rightarrow> int" where
  "scaled_digits n d x =
     (if 11 \<le> x then round_half_even n (d * 10 ^ nat (x - 11))
      else round_half_even (n * 10 ^ nat (11 - x)) d)"

definition render_g :: "string \<Rightarrow> int \<Rightarrow> string" where
  "render_g ds x =
     (if x < - 4 \<or> 12 \<le> x then
        hd ds # (if tl ds = [] then [] else CHR ''.'' # tl ds)
          @ CHR ''e'' # (if x < 0 then CHR ''-'' else CHR ''+'')
          # digits_of (if \<bar>x\<bar> < 100 then 2 else 3) \<bar>x\<bar>
      else if 0 \<le> x then
        (let n = nat (x + 1); ps = ds @ replicate (n - length ds) (CHR ''0'')
         in take n ps @ (if drop n ps = [] then [] else CHR ''.'' # drop n ps))
      else ''0.'' @ replicate (nat (- x - 1)) (CHR ''0'') @ ds)"

definition format_digits :: "int \<Rightarrow> int \<Rightarrow> string" where
  "format_digits q x =
     (if q = 10 ^ 12 then render_g ''1'' (x + 1)
      else render_g (strip_zeros (digits_of 12 q)) x)"

definition format_ratio :: "int \<Rightarrow> int \<Rightarrow> int \<Rightarrow> string" where
  "format_ratio n d x = format_digits (scaled_digits n d x) x"

definition format_finite :: "int \<Rightarrow> int \<Rightarrow> string" where
  "format_finite m e =
     (if m = 0 then ''0''
      else if 0 \<le> e then format_ratio (m * 2 ^ nat e) 1 (decimal_exponent (m * 2 ^ nat e) 1)
      else format_ratio m (2 ^ nat (- e)) (decimal_exponent m (2 ^ nat (- e))))"

fun format_12g :: "pyfloat \<Rightarrow> string" where
  "format_12g NaN = ''nan''"
| "format_12g (Infinite s) = (if s then ''-inf'' else ''inf'')"
| "format_12g (Finite s m e) = (if s then ''-'' else []) @ format_finite m e"


section \<open>The calculator engine\<close>

text \<open>
  \<^verbatim>\<open>class Calculator\<close>.  The field \<open>display\<close> is the text last passed to the
  \<^verbatim>\<open>update_display\<close> callback, that is, what the widget shows.  \<open>pending_op\<close> holds
  one of the four symbols that \<^verbatim>\<open>add\<close>, \<^verbatim>\<open>subtract\<close>, \<^verbatim>\<open>multiply\<close> and
  \<^verbatim>\<open>divide\<close> pass to \<^verbatim>\<open>_press_operator\<close>, or \<^verbatim>\<open>None\<close>.
\<close>

datatype op = Add | Subtract | Multiply | Divide

record calculator =
  acc :: pyfloat
  current :: string
  pending_op :: "op option"
  just_evaluated :: bool
  display :: string

text \<open>
  The class exists twice.  The two copies differ in \<^verbatim>\<open>_set_current_from_value\<close>
  only: the one of \<^verbatim>\<open>Quiz06\<close> tests \<^verbatim>\<open>math.isfinite\<close>.
\<close>

datatype revision = Quiz04 | Quiz06

definition reset :: "'a calculator_scheme \<Rightarrow> 'a calculator_scheme" where
  "reset s = s\<lparr>acc := zero, current := ''0'', pending_op := None,
               just_evaluated := False, display := ''0''\<rparr>"

text \<open>\<^verbatim>\<open>__init__\<close> stores the callback and calls \<^verbatim>\<open>reset\<close>.\<close>

definition init :: calculator where
  "init = \<lparr>acc = zero, current = ''0'', pending_op = None,
           just_evaluated = False, display = ''0''\<rparr>"

definition current_value :: "'a calculator_scheme \<Rightarrow> pyfloat" where
  "current_value s = (case float_of_str (current s) of None \<Rightarrow> zero | Some v \<Rightarrow> v)"

definition value_text :: "revision \<Rightarrow> pyfloat \<Rightarrow> string" where
  "value_text r val =
     (case r of
        Quiz04 \<Rightarrow> format_12g val
      | Quiz06 \<Rightarrow> if isfinite val then format_12g val else ''Error'')"

definition set_current_from_value ::
  "revision \<Rightarrow> pyfloat \<Rightarrow> 'a calculator_scheme \<Rightarrow> 'a calculator_scheme" where
  "set_current_from_value r val s = s\<lparr>current := value_text r val, display := value_text r val\<rparr>"

definition start_new_entry :: "'a calculator_scheme \<Rightarrow> 'a calculator_scheme" where
  "start_new_entry s =
     (if just_evaluated s \<and> pending_op s = None
      then s\<lparr>current := ''0'', just_evaluated := False\<rparr> else s)"

definition input_digit :: "string \<Rightarrow> 'a calculator_scheme \<Rightarrow> 'a calculator_scheme" where
  "input_digit d s =
     (let s1 = start_new_entry s;
          t = (if current s1 = ''0'' then d else current s1 @ d)
      in s1\<lparr>current := t, display := t\<rparr>)"

definition input_dot :: "'a calculator_scheme \<Rightarrow> 'a calculator_scheme" where
  "input_dot s =
     (let s1 = start_new_entry s
      in if CHR ''.'' \<notin> set (current s1)
         then (let t = current s1 @ (if current s1 \<noteq> [] then ''.'' else ''0.'')
               in s1\<lparr>current := t, display := t\<rparr>)
         else s1)"

definition negative_positive :: "'a calculator_scheme \<Rightarrow> 'a calculator_scheme" where
  "negative_positive s =
     (let t = (if take 1 (current s) = ''-''
               then (if drop 1 (current s) \<noteq> [] then drop 1 (current s) else ''0'')
               else if current s \<noteq> ''0'' then CHR ''-'' # current s
               else current s)
      in s\<lparr>current := t, display := t\<rparr>)"

definition percent :: "revision \<Rightarrow> 'a calculator_scheme \<Rightarrow> pyexn + 'a calculator_scheme" where
  "percent r s =
     (case py_truediv (current_value s) hundred of
        Inl e \<Rightarrow> Inl e
      | Inr q \<Rightarrow>
          Inr (set_current_from_value r (if pending_op s \<noteq> None then fmul (acc s) q else q) s))"

text \<open>The body of the \<^verbatim>\<open>try\<close> block of \<^verbatim>\<open>_apply_pending\<close>.\<close>

fun pending_result :: "op \<Rightarrow> pyfloat \<Rightarrow> pyfloat \<Rightarrow> pyexn + pyfloat" where
  "pending_result Add a b = Inr (fadd a b)"
| "pending_result Subtract a b = Inr (fsub a b)"
| "pending_result Multiply a b = Inr (fmul a b)"
| "pending_result Divide a b =
     (if float_eq b zero then Inl ZeroDivisionError else py_truediv a b)"

text \<open>
  \<^verbatim>\<open>_apply_pending\<close> returns \<^verbatim>\<open>None\<close> or \<^verbatim>\<open>"error"\<close>; its handler catches
  \<^verbatim>\<open>ZeroDivisionError\<close> and nothing else.
\<close>

definition division_error :: "'a calculator_scheme \<Rightarrow> 'a calculator_scheme" where
  "division_error s = s\<lparr>current := ''Error'', acc := zero, pending_op := None,
                        just_evaluated := True, display := ''Error''\<rparr>"

definition apply_pending ::
  "revision \<Rightarrow> 'a calculator_scheme \<Rightarrow> pyexn + (string option \<times> 'a calculator_scheme)" where
  "apply_pending r s =
     (case pending_op s of
        None \<Rightarrow> Inr (None, s)
      | Some p \<Rightarrow>
          (case pending_result p (acc s) (current_value s) of
             Inl ZeroDivisionError \<Rightarrow> Inr (Some ''error'', division_error s)
           | Inl e \<Rightarrow> Inl e
           | Inr res \<Rightarrow> Inr (None, set_current_from_value r res (s\<lparr>acc := res\<rparr>))))"

definition press_operator ::
  "revision \<Rightarrow> op \<Rightarrow> 'a calculator_scheme \<Rightarrow> pyexn + 'a calculator_scheme" where
  "press_operator r op_symbol s =
     (if current s = ''Error'' then Inr (reset s)
      else if pending_op s = None then
        Inr (s\<lparr>acc := current_value s, pending_op := Some op_symbol,
               just_evaluated := False, current := ''0''\<rparr>)
      else
        (case apply_pending r s of
           Inl e \<Rightarrow> Inl e
         | Inr (status, s1) \<Rightarrow>
             if status = Some ''error'' then Inr s1
             else Inr (s1\<lparr>pending_op := Some op_symbol, current := ''0'',
                          just_evaluated := False\<rparr>)))"

definition add :: "revision \<Rightarrow> 'a calculator_scheme \<Rightarrow> pyexn + 'a calculator_scheme" where
  "add r = press_operator r Add"

definition subtract :: "revision \<Rightarrow> 'a calculator_scheme \<Rightarrow> pyexn + 'a calculator_scheme" where
  "subtract r = press_operator r Subtract"

definition multiply :: "revision \<Rightarrow> 'a calculator_scheme \<Rightarrow> pyexn + 'a calculator_scheme" where
  "multiply r = press_operator r Multiply"

definition divide_calc :: "revision \<Rightarrow> 'a calculator_scheme \<Rightarrow> pyexn + 'a calculator_scheme" where
  "divide_calc r = press_operator r Divide"

definition equal_calc :: "revision \<Rightarrow> 'a calculator_scheme \<Rightarrow> pyexn + 'a calculator_scheme" where
  "equal_calc r s =
     (if current s = ''Error'' then Inr (reset s)
      else if pending_op s = None then
        Inr ((set_current_from_value r (current_value s) s)\<lparr>just_evaluated := True\<rparr>)
      else
        (case apply_pending r s of
           Inl e \<Rightarrow> Inl e
         | Inr (status, s1) \<Rightarrow>
             if status = Some ''error'' then Inr s1
             else Inr (s1\<lparr>pending_op := None, just_evaluated := True\<rparr>)))"

subsection \<open>The buttons\<close>

text \<open>
  \<^verbatim>\<open>on_button\<close> of the window dispatches on the label of the button: \<^verbatim>\<open>AC\<close>,
  the sign key, \<^verbatim>\<open>%\<close>, the four operators, \<^verbatim>\<open>=\<close>, the point and the digits.
\<close>

datatype button = AC | Sign | Percent | Operator op | Equals | Dot | Digit char

fun on_button :: "revision \<Rightarrow> button \<Rightarrow> 'a calculator_scheme \<Rightarrow> pyexn + 'a calculator_scheme" where
  "on_button r AC s = Inr (reset s)"
| "on_button r Sign s = Inr (negative_positive s)"
| "on_button r Percent s = percent r s"
| "on_button r (Operator Add) s = add r s"
| "on_button r (Operator Subtract) s = subtract r s"
| "on_button r (Operator Multiply) s = multiply r s"
| "on_button r (Operator Divide) s = divide_calc r s"
| "on_button r Equals s = equal_calc r s"
| "on_button r Dot s = Inr (input_dot s)"
| "on_button r (Digit c) s = Inr (input_digit [c] s)"

text \<open>A sequence of clicks; an exception that leaves a handler ends the run.\<close>

fun clicks :: "revision \<Rightarrow> button list \<Rightarrow> 'a calculator_scheme \<Rightarrow> pyexn + 'a calculator_scheme" where
  "clicks r [] s = Inr s"
| "clicks r (b # bs) s = (case on_button r b s of Inl e \<Rightarrow> Inl e | Inr s1 \<Rightarrow> clicks r bs s1)"

section \<open>The engineering calculator\<close>

text \<open>
  \<^verbatim>\<open>class EngineeringCalculator(Calculator)\<close> of \<^verbatim>\<open>Quiz06\<close>.  The functions of
  the C library behind \<^verbatim>\<open>math.sin\<close> and its siblings are parameters; each returns a
  float or raises (\<^verbatim>\<open>ValueError\<close> at an infinite argument, \<^verbatim>\<open>OverflowError\<close>).
  \<^verbatim>\<open>math.radians(x)\<close> is \<^verbatim>\<open>x * (pi / 180)\<close>.
\<close>

record engineering_calculator = calculator +
  is_degree_mode :: bool

record libm =
  m_sin :: "pyfloat \<Rightarrow> pyexn + pyfloat"
  m_cos :: "pyfloat \<Rightarrow> pyexn + pyfloat"
  m_tan :: "pyfloat \<Rightarrow> pyexn + pyfloat"
  m_sinh :: "pyfloat \<Rightarrow> pyexn + pyfloat"
  m_cosh :: "pyfloat \<Rightarrow> pyexn + pyfloat"
  m_tanh :: "pyfloat \<Rightarrow> pyexn + pyfloat"

definition engineering_init :: engineering_calculator where
  "engineering_init = \<lparr>acc = zero, current = ''0'', pending_op = None,
                        just_evaluated = False, display = ''0'', is_degree_mode = True\<rparr>"

definition radians :: "pyfloat \<Rightarrow> pyfloat" where
  "radians x = fmul x (fdiv pi_float (of_decimal False 180 0))"

definition angle :: "engineering_calculator \<Rightarrow> pyfloat \<Rightarrow> pyfloat" where
  "angle s x = (if is_degree_mode s then radians x else x)"

definition insert_pi :: "engineering_calculator \<Rightarrow> engineering_calculator" where
  "insert_pi s = s\<lparr>current := format_12g pi_float, display := format_12g pi_float\<rparr>"

definition square :: "engineering_calculator \<Rightarrow> engineering_calculator" where
  "square s = set_current_from_value Quiz06 (fmul (current_value s) (current_value s)) s"

definition cube :: "engineering_calculator \<Rightarrow> engineering_calculator" where
  "cube s =
     set_current_from_value Quiz06
       (fmul (fmul (current_value s) (current_value s)) (current_value s)) s"

definition sin_calc :: "libm \<Rightarrow> engineering_calculator \<Rightarrow> pyexn + engineering_calculator" where
  "sin_calc m s =
     (case m_sin m (angle s (current_value s)) of
        Inl e \<Rightarrow> Inl e
      | Inr y \<Rightarrow> Inr (set_current_from_value Quiz06 y s))"

definition cos_calc :: "libm \<Rightarrow> engineering_calculator \<Rightarrow> pyexn + engineering_calculator" where
  "cos_calc m s =
     (case m_cos m (angle s (current_value s)) of
        Inl e \<Rightarrow> Inl e
      | Inr y \<Rightarrow> Inr (set_current_from_value Quiz06 y s))"

text \<open>\<^verbatim>\<open>tan\<close> alone catches every exception and shows the error marker.\<close>

definition tan_calc :: "libm \<Rightarrow> engineering_calculator \<Rightarrow> pyexn + engineering_calculator" where
  "tan_calc m s =
     (case m_tan m (angle s (current_value s)) of
        Inl e \<Rightarrow> Inr (s\<lparr>current := ''Error'', display := ''Error''\<rparr>)
      | Inr y \<Rightarrow> Inr (set_current_from_value Quiz06 y s))"

definition sinh_calc :: "libm \<Rightarrow> engineering_calculator \<Rightarrow> pyexn + engineering_calculator" where
  "sinh_calc m s =
     (case m_sinh m (current_value s) of
        Inl e \<Rightarrow> Inl e
      | Inr y \<Rightarrow> Inr (set_current_from_value Quiz06 y s))"

definition cosh_calc :: "libm \<Rightarrow> engineering_calculator \<Rightarrow> pyexn + engineering_calculator" where
  "cosh_calc m s =
     (case m_cosh m (current_value s) of
        Inl e \<Rightarrow> Inl e
      | Inr y \<Rightarrow> Inr (set_current_from_value Quiz06 y s))"

definition tanh_calc :: "libm \<Rightarrow> engineering_calculator \<Rightarrow> pyexn + engineering_calculator" where
  "tanh_calc m s =
     (case m_tanh m (current_value s) of
        Inl e \<Rightarrow> Inl e
      | Inr y \<Rightarrow> Inr (set_current_from_value Quiz06 y s))"

definition set_deg :: "engineering_calculator \<Rightarrow> engineering_calculator" where
  "set_deg s = s\<lparr>is_degree_mode := True\<rparr>"

definition set_rad :: "engineering_calculator \<Rightarrow> engineering_calculator" where
  "set_rad s = s\<lparr>is_degree_mode := False\<rparr>"


section \<open>States used as examples\<close>

text \<open>The state after the clicks \<^verbatim>\<open>5\<close>, \<^verbatim>\<open>\<div>\<close>, \<^verbatim>\<open>0\<close>.\<close>

definition five_div_zero :: calculator where
  "five_div_zero = \<lparr>acc = of_decimal False 5 0, current = ''0'', pending_op = Some Divide,
                    just_evaluated = False, display = ''0''\<rparr>"

text \<open>The state that the handler of \<^verbatim>\<open>ZeroDivisionError\<close> leaves.\<close>

definition error_state :: calculator where
  "error_state = \<lparr>acc = zero, current = ''Error'', pending_op = None,
                  just_evaluated = True, display = ''Error''\<rparr>"

text \<open>
  A division is pending while the text is the error marker: in \<^verbatim>\<open>Quiz06\<close> the clicks
  \<^verbatim>\<open>5\<close>, \<^verbatim>\<open>\<div>\<close>, a number of 310 digits and \<^verbatim>\<open>x\<^sup>2\<close> lead here, the square
  being infinite.
\<close>

definition error_while_pending :: calculator where
  "error_while_pending = \<lparr>acc = of_decimal False 5 0, current = ''Error'',
                          pending_op = Some Divide, just_evaluated = False,
                          display = ''Error''\<rparr>"

text \<open>The state after the clicks \<^verbatim>\<open>2\<close>, \<^verbatim>\<open>+\<close>, \<^verbatim>\<open>3\<close>.\<close>

definition two_plus_three :: calculator where
  "two_plus_three = \<lparr>acc = of_decimal False 2 0, current = ''3'', pending_op = Some Add,
                     just_evaluated = False, display = ''3''\<rparr>"

text \<open>
  A stand-in for the C library that returns its argument, so that the display shows
  which argument the library was given.
\<close>

definition echo_libm :: libm where
  "echo_libm = \<lparr>m_sin = Inr, m_cos = Inr, m_tan = Inr, m_sinh = Inr, m_cosh = Inr, m_tanh = Inr\<rparr>"

text \<open>The engineering calculator after the clicks \<^verbatim>\<open>9\<close>, \<^verbatim>\<open>0\<close>.\<close>

definition ninety :: engineering_calculator where
  "ninety = \<lparr>acc = zero, current = ''90'', pending_op = None, just_evaluated = False,
             display = ''90'', is_degree_mode = True\<rparr>"

text \<open>The clicks \<^verbatim>\<open>1\<close> and 309 times \<^verbatim>\<open>0\<close>: the number \<open>10\<^sup>3\<^sup>0\<^sup>9\<close> is no float.\<close>

definition overflow_text :: string where
  "overflow_text = CHR ''1'' # replicate 309 (CHR ''0'')"

definition typed_overflow :: calculator where
  "typed_overflow = \<lparr>acc = zero, current = overflow_text, pending_op = None,
                      just_evaluated = False, display = overflow_text\<rparr>"

text \<open>Thirteen digits typed.\<close>

definition thirteen_digits :: calculator where
  "thirteen_digits = \<lparr>acc = zero, current = ''1234567890123'', pending_op = None,
                       just_evaluated = False, display = ''1234567890123''\<rparr>"

section \<open>Notions used to state the properties\<close>

text \<open>The value of a binary operation on floats.\<close>

fun op_value :: "op \<Rightarrow> pyfloat \<Rightarrow> pyfloat \<Rightarrow> pyfloat" where
  "op_value Add a b = fadd a b"
| "op_value Subtract a b = fsub a b"
| "op_value Multiply a b = fmul a b"
| "op_value Divide a b = fdiv a b"

text \<open>
  A numeric text as the user types it: an optional leading \<^verbatim>\<open>-\<close>, then digits with
  at most one point.
\<close>

definition numeric_text :: "string \<Rightarrow> bool" where
  "numeric_text t =
     (let u = (if take 1 t = ''-'' then drop 1 t else t)
      in u \<noteq> [] \<and> list_all (\<lambda>c. is_digit c \<or> c = CHR ''.'') u
         \<and> count_list u (CHR ''.'') \<le> 1)"

section \<open>Division by zero and the error marker\<close>

lemma hundred_not_zero: "\<not> float_eq hundred zero"
  by code_simp

lemma apply_pending_division_by_zero:
  "pending_op s = Some Divide \<Longrightarrow> float_eq (current_value s) zero \<Longrightarrow>
   apply_pending r s = Inr (Some ''error'', division_error s)"
  by (simp add: apply_pending_def)

lemma typed_five_div_zero:
  "clicks r [Digit CHR ''5'', Operator Divide, Digit CHR ''0''] init = Inr five_div_zero"
  by (cases r; code_simp)

lemma five_div_zero_facts:
  "pending_op five_div_zero = Some Divide" "current five_div_zero \<noteq> ''Error''"
  "float_eq (current_value five_div_zero) zero"
  "division_error five_div_zero = error_state"
  by code_simp+

text \<open>
  Claim C1, as the code has it.  In every state with a pending division whose text is
  not the error marker and whose parsed value equals zero, \<^verbatim>\<open>equal\<close> and the fold
  inside \<^verbatim>\<open>_press_operator\<close> both return normally and leave the error marker as text and
  on the display, the accumulator \<open>0.0\<close>, no pending operator and \<open>just_evaluated\<close>
  set; \<^verbatim>\<open>reset\<close> then gives the text \<^verbatim>\<open>"0"\<close> and no pending operator.
\<close>

theorem C1_division_by_zero_contained:
  assumes "pending_op s = Some Divide" and "current s \<noteq> ''Error''"
    and "float_eq (current_value s) zero"
  shows "equal_calc r s = Inr (division_error s)
       \<and> press_operator r op_symbol s = Inr (division_error s)
       \<and> current (division_error s) = ''Error'' \<and> acc (division_error s) = zero
       \<and> pending_op (division_error s) = None \<and> just_evaluated (division_error s)
       \<and> display (division_error s) = ''Error''
       \<and> current (reset (division_error s)) = ''0''
       \<and> pending_op (reset (division_error s)) = None
       \<and> acc (reset (division_error s)) = zero
       \<and> \<not> just_evaluated (reset (division_error s))"
  using assms
  by (simp add: equal_calc_def press_operator_def apply_pending_division_by_zero
      division_error_def reset_def)

text \<open>The clicks \<^verbatim>\<open>5\<close>, \<^verbatim>\<open>\<div>\<close>, \<^verbatim>\<open>0\<close>, \<^verbatim>\<open>=\<close> and then \<^verbatim>\<open>AC\<close>.\<close>

theorem C1_division_by_zero_contained_witness:
  "pending_op five_div_zero = Some Divide \<and> current five_div_zero \<noteq> ''Error''
   \<and> float_eq (current_value five_div_zero) zero
   \<and> equal_calc Quiz04 five_div_zero = Inr error_state
   \<and> press_operator Quiz04 Add five_div_zero = Inr error_state
   \<and> current (reset error_state) = ''0''"
  using C1_division_by_zero_contained [of five_div_zero Quiz04 Add] five_div_zero_facts
  by simp

text \<open>
  Without the restriction on the text the claim fails: the parsed value of the error
  marker is \<open>0.0\<close>, and \<^verbatim>\<open>equal\<close> clears the state instead.
\<close>

theorem C1_division_by_zero_counterexample:
  "pending_op error_while_pending = Some Divide
   \<and> float_eq (current_value error_while_pending) zero
   \<and> equal_calc Quiz06 error_while_pending
       = Inr \<lparr>acc = zero, current = ''0'', pending_op = None, just_evaluated = False,
               display = ''0''\<rparr>"
  by code_simp

text \<open>
  Claim C5.  When the text is the error marker, \<^verbatim>\<open>_press_operator\<close> and
  \<^verbatim>\<open>equal\<close> do what \<^verbatim>\<open>reset\<close> does and nothing else: accumulator \<open>0.0\<close>, text
  \<^verbatim>\<open>"0"\<close>, no pending operator, \<open>just_evaluated\<close> false.
\<close>

theorem C5_error_marker_clears:
  assumes "current s = ''Error''"
  shows "press_operator r op_symbol s = Inr (reset s) \<and> equal_calc r s = Inr (reset s)
       \<and> acc (reset s) = zero \<and> current (reset s) = ''0''
       \<and> pending_op (reset s) = None \<and> \<not> just_evaluated (reset s)"
  using assms by (simp add: press_operator_def equal_calc_def reset_def)

theorem C5_error_marker_clears_witness:
  "current error_state = ''Error''
   \<and> press_operator Quiz06 Multiply error_state = Inr init
   \<and> equal_calc Quiz06 error_state = Inr init"
proof -
  have c: "current error_state = ''Error''" by (simp add: error_state_def)
  have r: "reset error_state = init" by (simp add: reset_def error_state_def init_def)
  show ?thesis using C5_error_marker_clears [OF c, of Quiz06 Multiply] c r by simp
qed

text \<open>
  Claim C10.  In the state that a division by zero leaves, \<^verbatim>\<open>input_digit(d)\<close> gives
  the state that \<^verbatim>\<open>reset\<close> followed by \<^verbatim>\<open>input_digit(d)\<close> gives: text \<open>d\<close>,
  accumulator \<open>0.0\<close>, no pending operator, \<open>just_evaluated\<close> false.
\<close>

theorem C10_digit_after_error:
  assumes "current s = ''Error''" and "acc s = zero" and "pending_op s = None"
    and "just_evaluated s"
  shows "input_digit [d] s = input_digit [d] (reset s)
       \<and> input_digit [d] s =
           s\<lparr>acc := zero, current := [d], pending_op := None,
             just_evaluated := False, display := [d]\<rparr>"
  using assms by (simp add: input_digit_def start_new_entry_def reset_def Let_def)

theorem C10_digit_after_error_witness:
  "current error_state = ''Error'' \<and> acc error_state = zero
   \<and> pending_op error_state = None \<and> just_evaluated error_state
   \<and> input_digit ''7'' error_state = input_digit ''7'' (reset error_state)
   \<and> input_digit ''7'' error_state =
       error_state\<lparr>acc := zero, current := ''7'', pending_op := None,
                    just_evaluated := False, display := ''7''\<rparr>"
proof -
  have h: "current error_state = ''Error''" "acc error_state = zero"
    "pending_op error_state = None" "just_evaluated error_state"
    by (simp_all add: error_state_def)
  from C10_digit_after_error [OF h, of "CHR ''7''"] h show ?thesis by blast
qed


section \<open>Chained operators\<close>

lemma pending_result_value:
  "\<not> (p = Divide \<and> float_eq b zero) \<Longrightarrow> pending_result p a b = Inr (op_value p a b)"
  by (cases p) (simp_all add: py_truediv_def)

lemma apply_pending_value:
  "pending_op s = Some p \<Longrightarrow> \<not> (p = Divide \<and> float_eq (current_value s) zero) \<Longrightarrow>
   apply_pending r s =
     Inr (None, set_current_from_value r (op_value p (acc s) (current_value s))
                  (s\<lparr>acc := op_value p (acc s) (current_value s)\<rparr>))"
  by (simp add: apply_pending_def pending_result_value)

lemma two_plus_three_times_four_04:
  "map_sum id display
     (clicks Quiz04 [Digit CHR ''2'', Operator Add, Digit CHR ''3'', Operator Multiply,
                     Digit CHR ''4'', Equals] init) = Inr ''20''"
  by code_simp

lemma two_plus_three_times_four_06:
  "map_sum id display
     (clicks Quiz06 [Digit CHR ''2'', Operator Add, Digit CHR ''3'', Operator Multiply,
                     Digit CHR ''4'', Equals] init) = Inr ''20''"
  by code_simp

lemma two_plus_three_times_four:
  "map_sum id display
     (clicks r [Digit CHR ''2'', Operator Add, Digit CHR ''3'', Operator Multiply,
                Digit CHR ''4'', Equals] init) = Inr ''20''"
  by (cases r) (simp_all only: two_plus_three_times_four_04 two_plus_three_times_four_06)

text \<open>
  Claim C2, as the code has it.  With an operator \<open>p\<close> pending, the text not the error
  marker and the pending operation not a division by zero, \<^verbatim>\<open>_press_operator(op)\<close>
  computes \<open>p\<close> on the accumulator (left) and the parsed text (right), stores the result
  in the accumulator, shows it, records \<open>op\<close> as pending and sets the text to
  \<^verbatim>\<open>"0"\<close>.  So the clicks \<^verbatim>\<open>2 + 3 \<times> 4 =\<close> display \<^verbatim>\<open>20\<close>: there is no
  precedence.
\<close>

theorem C2_chained_operator_folds:
  assumes "pending_op s = Some p" and "current s \<noteq> ''Error''"
    and "\<not> (p = Divide \<and> float_eq (current_value s) zero)"
  shows "press_operator r op_symbol s =
           Inr (s\<lparr>acc := op_value p (acc s) (current_value s), current := ''0'',
                  pending_op := Some op_symbol, just_evaluated := False,
                  display := value_text r (op_value p (acc s) (current_value s))\<rparr>)
       \<and> map_sum id display
           (clicks r [Digit CHR ''2'', Operator Add, Digit CHR ''3'', Operator Multiply,
                      Digit CHR ''4'', Equals] init) = Inr ''20''"
proof -
  have "press_operator r op_symbol s =
          Inr (s\<lparr>acc := op_value p (acc s) (current_value s), current := ''0'',
                 pending_op := Some op_symbol, just_evaluated := False,
                 display := value_text r (op_value p (acc s) (current_value s))\<rparr>)"
    using assms
    by (simp add: press_operator_def apply_pending_value set_current_from_value_def)
  then show ?thesis using two_plus_three_times_four [of r] by blast
qed

theorem C2_chained_operator_folds_witness:
  "pending_op two_plus_three = Some Add \<and> current two_plus_three \<noteq> ''Error''
   \<and> \<not> (Add = Divide \<and> float_eq (current_value two_plus_three) zero)
   \<and> press_operator Quiz04 Multiply two_plus_three =
       Inr \<lparr>acc = of_decimal False 5 0, current = ''0'', pending_op = Some Multiply,
             just_evaluated = False, display = ''5''\<rparr>"
proof -
  have h: "pending_op two_plus_three = Some Add" "current two_plus_three \<noteq> ''Error''"
    "\<not> (Add = Divide \<and> float_eq (current_value two_plus_three) zero)"
    by (simp_all add: two_plus_three_def)
  have e: "two_plus_three\<lparr>acc := op_value Add (acc two_plus_three) (current_value two_plus_three),
             current := ''0'', pending_op := Some Multiply, just_evaluated := False,
             display := value_text Quiz04
                          (op_value Add (acc two_plus_three) (current_value two_plus_three))\<rparr>
           = \<lparr>acc = of_decimal False 5 0, current = ''0'', pending_op = Some Multiply,
             just_evaluated = False, display = ''5''\<rparr>"
    by code_simp
  from C2_chained_operator_folds [OF h, of Quiz04 Multiply] h e show ?thesis by simp
qed

text \<open>
  With a division by zero pending the fold stops in the error state and \<open>op\<close> is not
  recorded: the claim as stated fails for \<^verbatim>\<open>5 \<div> 0 +\<close>.
\<close>

theorem C2_chained_operator_counterexample:
  "pending_op five_div_zero = Some Divide
   \<and> press_operator Quiz04 Add five_div_zero
       = Inr \<lparr>acc = zero, current = ''Error'', pending_op = None, just_evaluated = True,
               display = ''Error''\<rparr>"
  by code_simp

section \<open>Percent\<close>

lemma percent_total:
  "percent r s =
     Inr (set_current_from_value r
            (if pending_op s \<noteq> None then fmul (acc s) (fdiv (current_value s) hundred)
             else fdiv (current_value s) hundred) s)"
  by (simp add: percent_def py_truediv_def hundred_not_zero)

lemma two_hundred_plus_ten_percent_04:
  "map_sum id display
     (clicks Quiz04 [Digit CHR ''2'', Digit CHR ''0'', Digit CHR ''0'', Operator Add,
                     Digit CHR ''1'', Digit CHR ''0'', Percent] init) = Inr ''20''"
  by code_simp

lemma two_hundred_plus_ten_percent_06:
  "map_sum id display
     (clicks Quiz06 [Digit CHR ''2'', Digit CHR ''0'', Digit CHR ''0'', Operator Add,
                     Digit CHR ''1'', Digit CHR ''0'', Percent] init) = Inr ''20''"
  by code_simp

lemma two_hundred_plus_ten_percent:
  "map_sum id display
     (clicks r [Digit CHR ''2'', Digit CHR ''0'', Digit CHR ''0'', Operator Add,
                Digit CHR ''1'', Digit CHR ''0'', Percent] init) = Inr ''20''"
  by (cases r)
    (simp_all only: two_hundred_plus_ten_percent_04 two_hundred_plus_ten_percent_06)

text \<open>
  Claim C4.  \<^verbatim>\<open>percent\<close> writes back, through \<^verbatim>\<open>_set_current_from_value\<close>,
  \<open>acc * (v / 100)\<close> when an operator is pending and \<open>v / 100\<close> otherwise, \<open>v\<close>
  being the parsed text; the clicks \<^verbatim>\<open>200 + 10 %\<close> display \<^verbatim>\<open>20\<close>.
\<close>

theorem C4_percent:
  "percent r s =
     Inr (s\<lparr>current := value_text r
                 (if pending_op s \<noteq> None then fmul (acc s) (fdiv (current_value s) hundred)
                  else fdiv (current_value s) hundred),
            display := value_text r
                 (if pending_op s \<noteq> None then fmul (acc s) (fdiv (current_value s) hundred)
                  else fdiv (current_value s) hundred)\<rparr>)
   \<and> map_sum id display
       (clicks r [Digit CHR ''2'', Digit CHR ''0'', Digit CHR ''0'', Operator Add,
                  Digit CHR ''1'', Digit CHR ''0'', Percent] init) = Inr ''20''"
proof -
  have "percent r s =
     Inr (s\<lparr>current := value_text r
                 (if pending_op s \<noteq> None then fmul (acc s) (fdiv (current_value s) hundred)
                  else fdiv (current_value s) hundred),
            display := value_text r
                 (if pending_op s \<noteq> None then fmul (acc s) (fdiv (current_value s) hundred)
                  else fdiv (current_value s) hundred)\<rparr>)"
    by (simp add: percent_total set_current_from_value_def)
  then show ?thesis using two_hundred_plus_ten_percent [of r] by blast
qed

section \<open>Typing\<close>

lemma input_dot_count:
  "count_list (current s) (CHR ''.'') \<le> 1 \<Longrightarrow>
   count_list (current (input_dot s)) (CHR ''.'') \<le> 1"
  by (auto simp add: input_dot_def start_new_entry_def Let_def count_list_0_iff)

lemma input_dot_iterated:
  "count_list (current s) (CHR ''.'') \<le> 1 \<Longrightarrow>
   count_list (current ((input_dot ^^ n) s)) (CHR ''.'') \<le> 1"
proof (induction n)
  case 0
  then show ?case by simp
next
  case (Suc n)
  then show ?case using input_dot_count [of "(input_dot ^^ n) s"] by simp
qed

text \<open>
  Claim C8.  The text holds at most one point initially, and \<^verbatim>\<open>input_dot\<close>
  preserves this, once or any number of times: after the new-entry rule it appends a
  point only when the text holds none, and changes nothing otherwise.
\<close>

theorem C8_single_decimal_point:
  "count_list (current init) (CHR ''.'') \<le> 1
   \<and> (count_list (current s) (CHR ''.'') \<le> 1 \<longrightarrow>
        count_list (current (input_dot s)) (CHR ''.'') \<le> 1
        \<and> count_list (current ((input_dot ^^ n) s)) (CHR ''.'') \<le> 1)
   \<and> (CHR ''.'' \<in> set (current (start_new_entry s)) \<longrightarrow> input_dot s = start_new_entry s)
   \<and> (CHR ''.'' \<notin> set (current (start_new_entry s)) \<longrightarrow>
        current (input_dot s) =
          current (start_new_entry s) @ (if current (start_new_entry s) \<noteq> [] then ''.'' else ''0.''))"
proof -
  have a: "count_list (current init) (CHR ''.'') \<le> 1" by (simp add: init_def)
  have b: "CHR ''.'' \<in> set (current (start_new_entry s)) \<longrightarrow> input_dot s = start_new_entry s"
    by (simp add: input_dot_def)
  have c: "CHR ''.'' \<notin> set (current (start_new_entry s)) \<longrightarrow>
        current (input_dot s) =
          current (start_new_entry s) @ (if current (start_new_entry s) \<noteq> [] then ''.'' else ''0.'')"
    by (simp add: input_dot_def Let_def)
  from a b c input_dot_count [of s] input_dot_iterated [of s n] show ?thesis by blast
qed

theorem C8_single_decimal_point_witness:
  "count_list (current init) (CHR ''.'') \<le> 1
   \<and> count_list (current (input_dot init)) (CHR ''.'') \<le> 1
   \<and> count_list (current ((input_dot ^^ 3) init)) (CHR ''.'') \<le> 1
   \<and> current (input_dot (input_dot init)) = ''0.''"
proof -
  have a: "count_list (current init) (CHR ''.'') \<le> 1" by (simp add: init_def)
  have c: "current (input_dot (input_dot init)) = ''0.''" by code_simp
  from C8_single_decimal_point [of init 3] a c show ?thesis by blast
qed

lemma numeric_text_cases:
  assumes "numeric_text t"
  obtains c cs where "t = c # cs" "c \<noteq> CHR ''-''"
  | c cs where "t = CHR ''-'' # c # cs" "c \<noteq> CHR ''-''"
proof (cases t)
  case Nil
  with assms show ?thesis by (simp add: numeric_text_def)
next
  case (Cons a u)
  show ?thesis
  proof (cases "a = CHR ''-''")
    case False
    with Cons that(1) show ?thesis by blast
  next
    case True
    with Cons assms obtain c cs where "u = c # cs" "is_digit c \<or> c = CHR ''.''"
      by (cases u) (auto simp add: numeric_text_def)
    moreover from this have "c \<noteq> CHR ''-''" by (auto simp add: is_digit_def)
    ultimately show ?thesis using Cons True that(2) by blast
  qed
qed

text \<open>
  Claim C9.  For a numeric text \<open>t\<close>, \<^verbatim>\<open>negative_positive\<close> twice gives \<open>t\<close> back,
  up to the normal form of zero: \<^verbatim>\<open>-0\<close> becomes \<^verbatim>\<open>0\<close>.  One call strips a
  leading \<^verbatim>\<open>-\<close> (leaving \<^verbatim>\<open>0\<close> if nothing remains) and otherwise prepends one,
  unless the text is \<^verbatim>\<open>0\<close>.
\<close>

theorem C9_sign_toggle_round_trip:
  assumes "numeric_text (current s)"
  shows "current (negative_positive (negative_positive s)) =
           (if current s = ''-0'' then ''0'' else current s)
       \<and> (\<forall>cs. current s = CHR ''-'' # cs \<longrightarrow>
            current (negative_positive s) = (if cs = [] then ''0'' else cs))
       \<and> (take 1 (current s) \<noteq> ''-'' \<longrightarrow>
            current (negative_positive s) =
              (if current s = ''0'' then ''0'' else CHR ''-'' # current s))"
  using assms
  by (cases rule: numeric_text_cases) (auto simp add: negative_positive_def Let_def)

lemma numeric_examples:
  "numeric_text (current (init\<lparr>current := ''-12.5''\<rparr>))"
  "numeric_text (current (init\<lparr>current := ''12.5''\<rparr>))"
  "numeric_text (current (init\<lparr>current := ''-0''\<rparr>))"
  by code_simp+

theorem C9_sign_toggle_round_trip_witness:
  "numeric_text (current (init\<lparr>current := ''-12.5''\<rparr>))
   \<and> current (negative_positive (negative_positive (init\<lparr>current := ''-12.5''\<rparr>))) = ''-12.5''
   \<and> current (negative_positive (init\<lparr>current := ''-12.5''\<rparr>)) = ''12.5''
   \<and> current (negative_positive (negative_positive (init\<lparr>current := ''12.5''\<rparr>))) = ''12.5''
   \<and> current (negative_positive (init\<lparr>current := ''12.5''\<rparr>)) = ''-12.5''
   \<and> current (negative_positive (negative_positive (init\<lparr>current := ''-0''\<rparr>))) = ''0''"
  using C9_sign_toggle_round_trip [OF numeric_examples(1)]
    C9_sign_toggle_round_trip [OF numeric_examples(2)]
    C9_sign_toggle_round_trip [OF numeric_examples(3)] numeric_examples(1)
  by simp


section \<open>Angle mode\<close>

lemma current_value_mode [simp]:
  "current_value (s\<lparr>is_degree_mode := b\<rparr>) = current_value s"
  by (simp add: current_value_def)

text \<open>
  Claim C6.  \<^verbatim>\<open>is_degree_mode\<close> is true after construction.  \<^verbatim>\<open>sin\<close>,
  \<^verbatim>\<open>cos\<close> and \<^verbatim>\<open>tan\<close> pass the parsed text through \<^verbatim>\<open>math.radians\<close> in degree
  mode and as it is in radian mode; \<^verbatim>\<open>sinh\<close>, \<^verbatim>\<open>cosh\<close> and \<^verbatim>\<open>tanh\<close> pass it
  as it is, and the mode has no influence on what they do.
\<close>

theorem C6_angle_mode:
  "is_degree_mode engineering_init
   \<and> (is_degree_mode s \<longrightarrow>
        sin_calc m s = (case m_sin m (radians (current_value s)) of
                          Inl e \<Rightarrow> Inl e
                        | Inr y \<Rightarrow> Inr (set_current_from_value Quiz06 y s))
      \<and> cos_calc m s = (case m_cos m (radians (current_value s)) of
                          Inl e \<Rightarrow> Inl e
                        | Inr y \<Rightarrow> Inr (set_current_from_value Quiz06 y s))
      \<and> tan_calc m s = (case m_tan m (radians (current_value s)) of
                          Inl e \<Rightarrow> Inr (s\<lparr>current := ''Error'', display := ''Error''\<rparr>)
                        | Inr y \<Rightarrow> Inr (set_current_from_value Quiz06 y s)))
   \<and> (\<not> is_degree_mode s \<longrightarrow>
        sin_calc m s = (case m_sin m (current_value s) of
                          Inl e \<Rightarrow> Inl e
                        | Inr y \<Rightarrow> Inr (set_current_from_value Quiz06 y s))
      \<and> cos_calc m s = (case m_cos m (current_value s) of
                          Inl e \<Rightarrow> Inl e
                        | Inr y \<Rightarrow> Inr (set_current_from_value Quiz06 y s))
      \<and> tan_calc m s = (case m_tan m (current_value s) of
                          Inl e \<Rightarrow> Inr (s\<lparr>current := ''Error'', display := ''Error''\<rparr>)
                        | Inr y \<Rightarrow> Inr (set_current_from_value Quiz06 y s)))
   \<and> sinh_calc m s = (case m_sinh m (current_value s) of
                        Inl e \<Rightarrow> Inl e
                      | Inr y \<Rightarrow> Inr (set_current_from_value Quiz06 y s))
   \<and> cosh_calc m s = (case m_cosh m (current_value s) of
                        Inl e \<Rightarrow> Inl e
                      | Inr y \<Rightarrow> Inr (set_current_from_value Quiz06 y s))
   \<and> tanh_calc m s = (case m_tanh m (current_value s) of
                        Inl e \<Rightarrow> Inl e
                      | Inr y \<Rightarrow> Inr (set_current_from_value Quiz06 y s))
   \<and> sinh_calc m (s\<lparr>is_degree_mode := b\<rparr>)
       = map_sum id (\<lambda>t. t\<lparr>is_degree_mode := b\<rparr>) (sinh_calc m s)
   \<and> cosh_calc m (s\<lparr>is_degree_mode := b\<rparr>)
       = map_sum id (\<lambda>t. t\<lparr>is_degree_mode := b\<rparr>) (cosh_calc m s)
   \<and> tanh_calc m (s\<lparr>is_degree_mode := b\<rparr>)
       = map_sum id (\<lambda>t. t\<lparr>is_degree_mode := b\<rparr>) (tanh_calc m s)"
  by (simp add: engineering_init_def sin_calc_def cos_calc_def tan_calc_def sinh_calc_def
      cosh_calc_def tanh_calc_def angle_def set_current_from_value_def split: sum.splits)

lemma ninety_shown:
  "is_degree_mode ninety" "\<not> is_degree_mode (set_rad ninety)"
  "(case m_sin echo_libm (radians (current_value ninety)) of
      Inl e \<Rightarrow> Inl e
    | Inr y \<Rightarrow> Inr (display (set_current_from_value Quiz06 y ninety))) = Inr ''1.57079632679''"
  "(case m_sin echo_libm (current_value (set_rad ninety)) of
      Inl e \<Rightarrow> Inl e
    | Inr y \<Rightarrow> Inr (display (set_current_from_value Quiz06 y (set_rad ninety)))) = Inr ''90''"
  by code_simp+

theorem C6_angle_mode_witness:
  "is_degree_mode ninety
   \<and> map_sum id display (sin_calc echo_libm ninety) = Inr ''1.57079632679''
   \<and> \<not> is_degree_mode (set_rad ninety)
   \<and> map_sum id display (sin_calc echo_libm (set_rad ninety)) = Inr ''90''"
proof -
  from C6_angle_mode [of ninety echo_libm] ninety_shown(1)
  have "map_sum id display (sin_calc echo_libm ninety)
          = (case m_sin echo_libm (radians (current_value ninety)) of
               Inl e \<Rightarrow> Inl e
             | Inr y \<Rightarrow> Inr (display (set_current_from_value Quiz06 y ninety)))"
    by (simp split: sum.splits)
  moreover from C6_angle_mode [of "set_rad ninety" echo_libm] ninety_shown(2)
  have "map_sum id display (sin_calc echo_libm (set_rad ninety))
          = (case m_sin echo_libm (current_value (set_rad ninety)) of
               Inl e \<Rightarrow> Inl e
             | Inr y \<Rightarrow> Inr (display (set_current_from_value Quiz06 y (set_rad ninety))))"
    by (simp split: sum.splits)
  ultimately show ?thesis using ninety_shown by simp
qed

section \<open>Results that are not finite\<close>

lemma overflow_value: "current_value typed_overflow = Infinite False"
  by code_simp

lemma overflow_not_marker: "current typed_overflow \<noteq> ''Error''" "pending_op typed_overflow = None"
  by code_simp+

text \<open>
  Claim C3 at the clicks \<^verbatim>\<open>1\<close>, 309 times \<^verbatim>\<open>0\<close>, \<^verbatim>\<open>=\<close>.  The value written
  back is infinite.  The class of \<^verbatim>\<open>Quiz06\<close> renders the error marker; the class of
  \<^verbatim>\<open>Quiz04\<close>, whose \<^verbatim>\<open>_set_current_from_value\<close> has no test, renders \<^verbatim>\<open>inf\<close>.
\<close>

theorem C3_quiz04_shows_inf:
  "equal_calc Quiz04 typed_overflow
     = Inr (typed_overflow\<lparr>current := ''inf'', display := ''inf'', just_evaluated := True\<rparr>)
   \<and> equal_calc Quiz06 typed_overflow
     = Inr (typed_overflow\<lparr>current := ''Error'', display := ''Error'', just_evaluated := True\<rparr>)"
  by (simp add: equal_calc_def overflow_value overflow_not_marker set_current_from_value_def
      value_text_def)


section \<open>Evaluate without a pending operator\<close>

lemma typed_thirteen_digits:
  "clicks Quiz04 (map Digit ''1234567890123'') init = Inr thirteen_digits"
  "clicks Quiz06 (map Digit ''1234567890123'') init = Inr thirteen_digits"
  by code_simp+

text \<open>
  Claim C7 at thirteen typed digits followed by \<^verbatim>\<open>=\<close>.  No operator is pending and
  the text is a valid number, yet \<^verbatim>\<open>equal\<close> does not keep it: it passes the parsed
  value through \<^verbatim>\<open>_set_current_from_value\<close>, which renders twelve significant
  digits, and text and display become \<^verbatim>\<open>1.23456789012e+12\<close>.  The typed number is
  \<open>1234567890123\<close>, the displayed one \<open>1234567890120\<close>.  Both copies of the class do
  so; the comment on this branch in \<^verbatim>\<open>Quiz04\<close> reads
  \<^verbatim>\<open>Nothing to do; keep current\<close>.
\<close>

theorem C7_evaluate_drops_digits:
  "pending_op thirteen_digits = None
   \<and> current_value thirteen_digits = of_decimal False 1234567890123 0
   \<and> equal_calc Quiz04 thirteen_digits
       = Inr (thirteen_digits\<lparr>current := ''1.23456789012e+12'',
                display := ''1.23456789012e+12'', just_evaluated := True\<rparr>)
   \<and> equal_calc Quiz06 thirteen_digits
       = Inr (thirteen_digits\<lparr>current := ''1.23456789012e+12'',
                display := ''1.23456789012e+12'', just_evaluated := True\<rparr>)
   \<and> current_value (thirteen_digits\<lparr>current := ''1.23456789012e+12''\<rparr>)
       = of_decimal False 1234567890120 0
   \<and> float_eq (of_decimal False 1234567890120 0) (of_decimal False 1234567890123 0) = False"
  by code_simp

end
